theory Spec2Isabelle
  imports Main "HOL-Library.AList"
begin

section \<open>Strings and the regular expressions of main.py\<close>

text \<open>
  A Python \<open>str\<close> is modelled as a \<open>string\<close>: a list of 8-bit characters, each standing
  for the code point of the same number (code points below 256). On that range
  \<open>\d\<close> is the ten ASCII digits, \<open>\s\<close> and \<open>str.strip()\<close> use the same whitespace
  set, and \<open>str.lower()\<close> maps one character to one character.
\<close>

definition code :: "char \<Rightarrow> nat" where
  "code c = of_char c"

text \<open>\<open>\d\<close> in a \<open>str\<close> pattern.\<close>

definition is_digit :: "char \<Rightarrow> bool" where
  "is_digit c \<longleftrightarrow> 48 \<le> code c \<and> code c \<le> 57"

text \<open>\<open>\s\<close>, and the characters \<open>str.strip()\<close> removes: TAB..CR, FS..US, space, NEL, NBSP.\<close>

definition is_space :: "char \<Rightarrow> bool" where
  "is_space c \<longleftrightarrow> (9 \<le> code c \<and> code c \<le> 13) \<or> (28 \<le> code c \<and> code c \<le> 32)
     \<or> code c = 133 \<or> code c = 160"

text \<open>\<open>str.isdigit()\<close>: the decimal digits and the superscripts 1, 2, 3 of Latin-1.\<close>

definition isdigit :: "char \<Rightarrow> bool" where
  "isdigit c \<longleftrightarrow> is_digit c \<or> code c = 178 \<or> code c = 179 \<or> code c = 185"

text \<open>\<open>str.lower()\<close>: A..Z and the capital letters of Latin-1 (U+00C0..U+00DE but U+00D7).\<close>

definition lower_char :: "char \<Rightarrow> char" where
  "lower_char c =
     (if (65 \<le> code c \<and> code c \<le> 90) \<or> (192 \<le> code c \<and> code c \<le> 222 \<and> code c \<noteq> 215)
      then char_of (code c + 32) else c)"

definition lower :: "string \<Rightarrow> string" where
  "lower s = map lower_char s"

definition strip :: "string \<Rightarrow> string" where
  "strip s = rev (dropWhile is_space (rev (dropWhile is_space s)))"

definition startswith :: "string \<Rightarrow> string \<Rightarrow> bool" where
  "startswith s p \<longleftrightarrow> take (length p) s = p"

text \<open>\<open>sub in s\<close>.\<close>

fun contains :: "string \<Rightarrow> string \<Rightarrow> bool" where
  "contains [] sub = (sub = [])"
| "contains (c # cs) sub = (startswith (c # cs) sub \<or> contains cs sub)"

text \<open>
  \<open>s.split(sep)\<close> for a non-empty separator: the pieces between the non-overlapping
  occurrences of \<open>sep\<close>, found left to right. \<open>acc\<close> holds the current piece, reversed.
\<close>

fun split_acc :: "string \<Rightarrow> string \<Rightarrow> string \<Rightarrow> string list" where
  "split_acc sep acc [] = [rev acc]"
| "split_acc sep acc (c # cs) =
     (if startswith (c # cs) sep then rev acc # split_acc sep [] (drop (length sep - 1) cs)
      else split_acc sep (c # acc) cs)"

definition split :: "string \<Rightarrow> string \<Rightarrow> string list" where
  "split s sep = split_acc sep [] s"

text \<open>
  \<open>re.sub(pattern, '', s)\<close> for a pattern that matches no empty string: \<open>m\<close> gives
  the length of the match that starts at the head of its argument, if there is one;
  the scan goes left to right and continues after each match.
\<close>

fun re_sub_delete :: "(string \<Rightarrow> nat option) \<Rightarrow> string \<Rightarrow> string" where
  "re_sub_delete m [] = []"
| "re_sub_delete m (c # cs) =
     (case m (c # cs) of
        Some n \<Rightarrow> re_sub_delete m (drop (n - 1) cs)
      | None \<Rightarrow> c # re_sub_delete m cs)"

section \<open>Number Normalizer: parse_phone_numbers\<close>

text \<open>\<open>re.sub(r'[^\d+]', '', s)\<close> and \<open>re.sub(r'[^\d]', '', s)\<close>.\<close>

definition keep_digits_plus :: "string \<Rightarrow> string" where
  "keep_digits_plus s = filter (\<lambda>c. is_digit c \<or> c = CHR ''+'') s"

definition keep_digits :: "string \<Rightarrow> string" where
  "keep_digits s = filter is_digit s"

text \<open>\<open>v.replace(' ', '').replace('-', '')\<close>.\<close>

definition remove_spaces_dashes :: "string \<Rightarrow> string" where
  "remove_spaces_dashes v = filter (\<lambda>c. c \<noteq> CHR ''-'') (filter (\<lambda>c. c \<noteq> CHR '' '') v)"

text \<open>\<open>digits[-10:]\<close>.\<close>

definition last_10 :: "string \<Rightarrow> string" where
  "last_10 digits = drop (length digits - 10) digits"

text \<open>
  The first loop of \<open>parse_phone_numbers\<close>: the dictionary \<open>verified_digits\<close>, from the
  last ten characters of each verified number to the number without spaces and dashes.
  A later number with the same key replaces an earlier one.
\<close>

fun verified_digits_from :: "(string \<rightharpoonup> string) \<Rightarrow> string list \<Rightarrow> (string \<rightharpoonup> string)" where
  "verified_digits_from d [] = d"
| "verified_digits_from d (v # vs) =
     (let digits = keep_digits_plus v in
      if length digits \<ge> 10
      then verified_digits_from (d(last_10 digits \<mapsto> remove_spaces_dashes v)) vs
      else verified_digits_from d vs)"

definition verified_digits :: "string list \<Rightarrow> (string \<rightharpoonup> string)" where
  "verified_digits verified_numbers = verified_digits_from Map.empty verified_numbers"

text \<open>
  \<open>re.split(r'[,\n\r]+', text)\<close>: the pieces between the maximal runs of separators;
  a separator at either end of the text leaves an empty piece there.
\<close>

definition is_separator :: "char \<Rightarrow> bool" where
  "is_separator c \<longleftrightarrow> c = CHR '','' \<or> c = CHR 0x0A \<or> c = CHR 0x0D"

function re_split_acc :: "string \<Rightarrow> string \<Rightarrow> string list" where
  "re_split_acc acc [] = [rev acc]"
| "re_split_acc acc (c # cs) =
     (if is_separator c then rev acc # re_split_acc [] (dropWhile is_separator cs)
      else re_split_acc (c # acc) cs)"
  by pat_completeness auto
termination
  by (relation "measure (\<lambda>(acc, s). length s)")
     (auto simp: less_Suc_eq_le length_dropWhile_le)

definition re_split :: "string \<Rightarrow> string list" where
  "re_split text = re_split_acc [] text"

text \<open>
  The body of the second loop, for one piece \<open>num\<close>: \<open>None\<close> where the source
  appends nothing (\<open>continue\<close>, or fewer than ten digits), otherwise the string appended.
  The order of the tests is the source's: the test for ten characters comes first.
\<close>

definition normalize_number :: "(string \<rightharpoonup> string) \<Rightarrow> string \<Rightarrow> string option" where
  "normalize_number vd num =
     (let num_clean = keep_digits_plus (strip num) in
      if num_clean = [] then None
      else
        let num_clean' =
          (if \<not> startswith num_clean ''+'' then
             (if length num_clean = 10 then
                (case vd num_clean of
                   Some v \<Rightarrow> v
                 | None \<Rightarrow> ''+1'' @ num_clean)
              else if length num_clean = 11 \<and> startswith num_clean ''1'' then
                ''+'' @ num_clean
              else if length num_clean = 10 \<and> startswith num_clean ''9'' then
                (case vd num_clean of
                   Some v \<Rightarrow> v
                 | None \<Rightarrow> ''+91'' @ num_clean)
              else ''+'' @ num_clean)
           else num_clean);
          digits_only = keep_digits num_clean'
        in if length digits_only \<ge> 10 then Some num_clean' else None)"

definition parse_phone_numbers :: "string list \<Rightarrow> string \<Rightarrow> string list" where
  "parse_phone_numbers verified_numbers text =
     List.map_filter (normalize_number (verified_digits verified_numbers)) (re_split text)"

section \<open>Error Sanitizer: strip_ansi_codes and clean_error_message\<close>

text \<open>
  The pattern \<open>\x1B(?:[@-Z\\-_]|\[[0-?]*[ -/]*[@-~])\<close> at the head of \<open>s\<close>: ESC, then
  either one character of \<open>@..Z\<close> or \<open>\.._\<close>, or \<open>[\<close>, the longest run of \<open>0..?\<close>, the
  longest run of \<open>space../\<close> and one character of \<open>@..~\<close>. The three classes are disjoint,
  so the greedy runs are the only way to match.
\<close>

definition ansi_escape :: "string \<Rightarrow> nat option" where
  "ansi_escape s =
     (case s of
        e # c # rest \<Rightarrow>
          if e \<noteq> CHR 0x1B then None
          else if (64 \<le> code c \<and> code c \<le> 90) \<or> (92 \<le> code c \<and> code c \<le> 95) then Some 2
          else if c = CHR ''['' then
            (let params = takeWhile (\<lambda>x. 48 \<le> code x \<and> code x \<le> 63) rest;
                 rest1 = dropWhile (\<lambda>x. 48 \<le> code x \<and> code x \<le> 63) rest;
                 inter = takeWhile (\<lambda>x. 32 \<le> code x \<and> code x \<le> 47) rest1;
                 rest2 = dropWhile (\<lambda>x. 32 \<le> code x \<and> code x \<le> 47) rest1
             in case rest2 of
                  f # _ \<Rightarrow>
                    if 64 \<le> code f \<and> code f \<le> 126
                    then Some (3 + length params + length inter) else None
                | [] \<Rightarrow> None)
          else None
      | _ \<Rightarrow> None)"

definition strip_ansi_codes :: "string \<Rightarrow> string" where
  "strip_ansi_codes text = re_sub_delete ansi_escape text"

text \<open>The pattern \<open>\[[0-9;]*m\<close> at the head of \<open>s\<close>.\<close>

definition bracket_code :: "string \<Rightarrow> nat option" where
  "bracket_code s =
     (case s of
        c # rest \<Rightarrow>
          if c = CHR ''['' then
            (case dropWhile (\<lambda>x. is_digit x \<or> x = CHR '';'') rest of
               f # _ \<Rightarrow>
                 if f = CHR ''m''
                 then Some (2 + length (takeWhile (\<lambda>x. is_digit x \<or> x = CHR '';'') rest))
                 else None
             | [] \<Rightarrow> None)
          else None
      | [] \<Rightarrow> None)"

text \<open>
  \<open>re.sub(marker + r'.*$', '', s, flags=re.DOTALL)\<close>: with DOTALL the match runs from
  the first occurrence of the marker to the end, so what is left is the text before it.
\<close>

fun before_first :: "string \<Rightarrow> string \<Rightarrow> string" where
  "before_first [] marker = []"
| "before_first (c # cs) marker =
     (if startswith (c # cs) marker then [] else c # before_first cs marker)"

text \<open>
  \<open>re.sub(r'https?://[^\s]+$', '', s)\<close>. The pattern matches at the head of \<open>s\<close> when
  \<open>s\<close> is a scheme and a non-empty run without whitespace that reaches the end of the
  text, or the newline that ends it (\<open>$\<close> without MULTILINE). The first such position
  is cut; what follows the match, nothing or that newline, stays.
\<close>

definition url_to_end :: "string \<Rightarrow> bool" where
  "url_to_end s =
     (case (if startswith s ''https://'' then Some (drop 8 s)
            else if startswith s ''http://'' then Some (drop 7 s) else None) of
        None \<Rightarrow> False
      | Some r \<Rightarrow>
          takeWhile (\<lambda>c. \<not> is_space c) r \<noteq> [] \<and>
          (dropWhile (\<lambda>c. \<not> is_space c) r = [] \<or> dropWhile (\<lambda>c. \<not> is_space c) r = [CHR 0x0A]))"

fun remove_url_at_end :: "string \<Rightarrow> string" where
  "remove_url_at_end [] = []"
| "remove_url_at_end (c # cs) =
     (if url_to_end (c # cs) then dropWhile (\<lambda>c. \<not> is_space c) (c # cs)
      else c # remove_url_at_end cs)"

definition twilio_preamble :: string where
  "twilio_preamble = ''Twilio returned the following information:''"

text \<open>
  What both \<open>clean_error_message\<close> and the handler of \<open>make_twilio_call\<close> do to
  \<open>parts[1]\<close>, the text after the first preamble: strip, delete \<open>[...m\<close> codes, cut at
  the "More information" footer, strip, delete a URL at the end, strip.
\<close>

definition twilio_core :: "string \<Rightarrow> string" where
  "twilio_core part =
     (let error_msg = strip part;
          error_msg = re_sub_delete bracket_code error_msg;
          error_msg = before_first error_msg ''More information may be available here:'';
          error_msg = strip error_msg
      in strip (remove_url_at_end error_msg))"

text \<open>
  \<open>re.search(r'Unable to create record:.*?(?=More information may be available|$)', s,
  re.DOTALL)\<close>: from the first occurrence of the literal, the shortest continuation
  that stops before "More information may be available", at the end of the text, or
  before the newline that ends it.
\<close>

fun up_to_more_information :: "string \<Rightarrow> string" where
  "up_to_more_information [] = []"
| "up_to_more_information (c # cs) =
     (if startswith (c # cs) ''More information may be available'' \<or> c # cs = [CHR 0x0A]
      then [] else c # up_to_more_information cs)"

fun search_unable_to_create :: "string \<Rightarrow> string option" where
  "search_unable_to_create [] = None"
| "search_unable_to_create (c # cs) =
     (if startswith (c # cs) ''Unable to create record:''
      then Some (''Unable to create record:'' @ up_to_more_information (drop 23 cs))
      else search_unable_to_create cs)"

text \<open>\<open>re.sub(r'\s+', ' ', s)\<close>.\<close>

function collapse_whitespace :: "string \<Rightarrow> string" where
  "collapse_whitespace [] = []"
| "collapse_whitespace (c # cs) =
     (if is_space c then CHR '' '' # collapse_whitespace (dropWhile is_space cs)
      else c # collapse_whitespace cs)"
  by pat_completeness auto
termination
  by (relation "measure length") (auto simp: less_Suc_eq_le length_dropWhile_le)

text \<open>
  The values the program stores in a log entry or a call result: \<open>None\<close>, a boolean or
  a string. \<open>truthy\<close> is Python's truth test, \<open>py_str\<close> is \<open>str()\<close>.
\<close>

datatype field_value = VNone | VBool bool | VStr string

fun truthy :: "field_value \<Rightarrow> bool" where
  "truthy VNone = False"
| "truthy (VBool b) = b"
| "truthy (VStr s) = (s \<noteq> [])"

fun py_str :: "field_value \<Rightarrow> string" where
  "py_str VNone = ''None''"
| "py_str (VBool b) = (if b then ''True'' else ''False'')"
| "py_str (VStr s) = s"

definition clean_error_message :: "field_value \<Rightarrow> field_value" where
  "clean_error_message error_text =
     (if \<not> truthy error_text then error_text
      else
        let cleaned = strip_ansi_codes (py_str error_text) in
        if contains cleaned twilio_preamble \<and> length (split cleaned twilio_preamble) > 1
        then VStr (twilio_core (split cleaned twilio_preamble ! 1))
        else if contains cleaned ''HTTP Error'' \<and> contains cleaned ''Unable to create record:''
        then (case search_unable_to_create cleaned of
                Some m \<Rightarrow> VStr (collapse_whitespace (strip m))
              | None \<Rightarrow> VStr cleaned)
        else VStr cleaned)"

section \<open>Call Log Store: calls.json\<close>

text \<open>
  A dictionary with string keys is an association list in insertion order. The file
  \<open>calls.json\<close> is absent, holds text that \<open>json.load\<close> rejects, or holds the array of
  entries that \<open>json.dump\<close> wrote: writing and reading back an array of such entries
  gives the same array, and the model keeps the array itself. Other JSON content, which
  no function of the program writes, is not a state of this type.
\<close>

type_synonym entry = "(string \<times> field_value) list"

datatype calls_json = Missing | Malformed | Stored "entry list"

definition load_call_logs :: "calls_json \<Rightarrow> entry list" where
  "load_call_logs f = (case f of Missing \<Rightarrow> [] | Malformed \<Rightarrow> [] | Stored logs \<Rightarrow> logs)"

definition save_call_log :: "entry \<Rightarrow> calls_json \<Rightarrow> calls_json" where
  "save_call_log call_data f = Stored (load_call_logs f @ [call_data])"

text \<open>The body of the loop of \<open>cleanup_all_logs\<close>, for one entry.\<close>

definition cleanup_log :: "entry \<Rightarrow> entry" where
  "cleanup_log log =
     (case map_of log ''error'' of
        Some e \<Rightarrow> if truthy e then AList.update ''error'' (clean_error_message e) log else log
      | None \<Rightarrow> log)"

definition cleanup_all_logs :: "calls_json \<Rightarrow> nat \<times> calls_json" where
  "cleanup_all_logs f =
     (let cleaned_logs = map cleanup_log (load_call_logs f)
      in (length cleaned_logs, Stored cleaned_logs))"

section \<open>Command Interpreter: parse_ai_command\<close>

text \<open>
  What \<open>json.loads\<close> can return. A number is kept as its literal. The dictionary that
  \<open>parse_ai_command\<close> returns has such values.
\<close>

datatype json = JNull | JBool bool | JNum string | JStr string
  | JArr "json list" | JObj "(string \<times> json) list"

type_synonym command = "(string \<times> json) list"

text \<open>\<open>ai_provider\<close> is \<open>None\<close>, \<open>"gemini"\<close> or \<open>"openai"\<close>.\<close>

datatype ai_provider = Gemini | OpenAI

text \<open>
  One request to the language model: it raises (network, a blocked or empty answer),
  or \<open>response.text\<close>, respectively \<open>message.content\<close>, is a string. The fixed system
  prompt is part of the backend, which is a function of the user's prompt.
\<close>

datatype reply = ReplyRaises | ReplyText string

datatype exception = BackendError | JSONDecodeError | UnicodeDecodeError

text \<open>\<open>re.findall(r'\d{10,}', s)\<close>: the maximal runs of digits that have ten or more.\<close>

function findall_digits_10 :: "string \<Rightarrow> string list" where
  "findall_digits_10 [] = []"
| "findall_digits_10 (c # cs) =
     (if is_digit c then
        (if length (takeWhile is_digit (c # cs)) \<ge> 10
         then takeWhile is_digit (c # cs) # findall_digits_10 (dropWhile is_digit cs)
         else findall_digits_10 (dropWhile is_digit cs))
      else findall_digits_10 cs)"
  by pat_completeness auto
termination
  by (relation "measure length") (auto simp: less_Suc_eq_le length_dropWhile_le)

text \<open>
  \<open>re.search(r'\{[^}]+\}', s)\<close>: the first \<open>{\<close> that is followed by at least one
  character other than \<open>}\<close> and then by a \<open>}\<close>; the match ends at that first \<open>}\<close>.
\<close>

fun search_braces :: "string \<Rightarrow> string option" where
  "search_braces [] = None"
| "search_braces (c # cs) =
     (if c = CHR ''{'' \<and> takeWhile (\<lambda>x. x \<noteq> CHR ''}'') cs \<noteq> []
         \<and> dropWhile (\<lambda>x. x \<noteq> CHR ''}'') cs \<noteq> []
      then Some (c # takeWhile (\<lambda>x. x \<noteq> CHR ''}'') cs @ ''}'')
      else search_braces cs)"

text \<open>\<open>numbers = re.findall(...); if numbers: return {"action": "call_single", ...}\<close>.\<close>

definition call_single :: "string \<Rightarrow> command option" where
  "call_single prompt =
     (case findall_digits_10 prompt of
        n # _ \<Rightarrow> Some [(''action'', JStr ''call_single''), (''number'', JStr n)]
      | [] \<Rightarrow> None)"

text \<open>The last two returns, shared by both paths.\<close>

definition call_all_or_unknown :: "string \<Rightarrow> command" where
  "call_all_or_unknown prompt =
     (if contains (lower prompt) ''start calling'' \<or> contains (lower prompt) ''call all''
      then [(''action'', JStr ''call_all'')]
      else [(''action'', JStr ''unknown''), (''error'', JStr ''Could not parse command'')])"

text \<open>
  The body of the \<open>try\<close>: \<open>Inl\<close> is an exception raised inside it, \<open>Inr None\<close> is
  falling out of it without a \<open>return\<close>. \<open>loads\<close> is \<open>json.loads\<close> on the matched text,
  \<open>None\<close> where it raises. The branches for Gemini and for OpenAI differ in the request
  they send and treat the reply alike.
\<close>

definition ask_backend ::
  "ai_provider \<Rightarrow> (string \<Rightarrow> reply) \<Rightarrow> (string \<Rightarrow> command option) \<Rightarrow> string
     \<Rightarrow> exception + command option" where
  "ask_backend provider backend loads prompt =
     (case backend prompt of
        ReplyRaises \<Rightarrow> Inl BackendError
      | ReplyText text \<Rightarrow>
          (case search_braces (strip text) of
             Some json_match \<Rightarrow>
               (case loads json_match of
                  Some d \<Rightarrow> Inr (Some d)
                | None \<Rightarrow> Inl JSONDecodeError)
           | None \<Rightarrow> Inr None))"

definition parse_ai_command ::
  "ai_provider option \<Rightarrow> (string \<Rightarrow> reply) \<Rightarrow> (string \<Rightarrow> command option) \<Rightarrow> string
     \<Rightarrow> exception + command" where
  "parse_ai_command provider backend loads prompt =
     (case provider of
        None \<Rightarrow>
          (case (if contains (lower prompt) ''call'' \<and> list_ex isdigit prompt
                 then call_single prompt else None) of
             Some d \<Rightarrow> Inr d
           | None \<Rightarrow> Inr (call_all_or_unknown prompt))
      | Some p \<Rightarrow>
          (case ask_backend p backend loads prompt of
             Inr (Some d) \<Rightarrow> Inr d
           | _ \<Rightarrow>
               (case (if contains (lower prompt) ''call'' then call_single prompt else None) of
                  Some d \<Rightarrow> Inr d
                | None \<Rightarrow> Inr (call_all_or_unknown prompt))))"

text \<open>The three variants of a parsed command.\<close>

definition is_variant :: "command \<Rightarrow> bool" where
  "is_variant d =
     (case map_of d ''action'' of
        Some (JStr a) \<Rightarrow>
          (a = ''call_single'' \<and> (case map_of d ''number'' of Some (JStr n) \<Rightarrow> True | _ \<Rightarrow> False))
          \<or> a = ''call_all''
          \<or> (a = ''unknown'' \<and> (case map_of d ''error'' of Some (JStr e) \<Rightarrow> True | _ \<Rightarrow> False))
      | _ \<Rightarrow> False)"

section \<open>Call Dispatcher: make_twilio_call\<close>

text \<open>
  The environment variables read by the dispatcher, \<open>None\<close> when unset, and the request
  that \<open>calls.create\<close> sends: the target, the source number and what \<open>say\<close> was given.
\<close>

record settings =
  TWILIO_PHONE_NUMBER :: "string option"
  CALL_MESSAGE :: "string option"
  CALL_VOICE :: "string option"
  CALL_LANGUAGE :: "string option"

record call_request =
  req_to :: string
  req_from :: "string option"
  say_message :: string
  say_voice :: string
  say_language :: string

text \<open>
  The outcome of the \<open>try\<close> block: an exception \<open>e\<close>, given by \<open>str(e)\<close>, or a call
  with its \<open>sid\<close> and \<open>status\<close>.
\<close>

datatype provider_outcome = CallRaises string | CallCreated string string

definition getenv :: "string option \<Rightarrow> string \<Rightarrow> string" where
  "getenv var dflt = (case var of Some v \<Rightarrow> v | None \<Rightarrow> dflt)"

text \<open>
  \<open>re.search(r'\+?\d{10,}', s)\<close>: the first position where a \<open>+\<close> and ten or more
  digits, or ten or more digits, start; the run of digits is taken whole.
\<close>

fun search_number :: "string \<Rightarrow> string option" where
  "search_number [] = None"
| "search_number (c # cs) =
     (if c = CHR ''+'' \<and> length (takeWhile is_digit cs) \<ge> 10
      then Some (c # takeWhile is_digit cs)
      else if is_digit c \<and> length (takeWhile is_digit (c # cs)) \<ge> 10
      then Some (takeWhile is_digit (c # cs))
      else search_number cs)"

text \<open>The first half of the handler: ANSI codes off, then the core of a Twilio error.\<close>

definition sanitize_exception :: "string \<Rightarrow> string" where
  "sanitize_exception e =
     (let error_msg = strip_ansi_codes e in
      if contains error_msg twilio_preamble \<and> length (split error_msg twilio_preamble) > 1
      then twilio_core (split error_msg twilio_preamble ! 1)
      else error_msg)"

text \<open>
  The second half: guidance appended for errors about verification. The arrow of the
  last literal, the one code point of the source beyond 255, is written as its three
  UTF-8 bytes.
\<close>

definition add_guidance :: "string \<Rightarrow> string" where
  "add_guidance error_msg =
     (if contains (lower error_msg) ''not yet verified'' \<or> contains (lower error_msg) ''unverified''
         \<or> contains (lower error_msg) ''verified''
      then
        (if contains (lower error_msg) ''source phone number''
         then error_msg @ '' | Fix: Use a Twilio-purchased number in TWILIO_PHONE_NUMBER (Twilio numbers are auto-verified)''
         else
           (case search_number error_msg of
              Some unverified_num \<Rightarrow>
                error_msg @ '' | Action Required: Verify the DESTINATION number '' @ unverified_num
                  @ '' at https://console.twilio.com/us1/develop/phone-numbers/manage/verified (Trial accounts must verify numbers they want to CALL)''
            | None \<Rightarrow>
                error_msg @ '' | Tip: For trial accounts, verify destination numbers in Twilio Console ''
                  @ [CHR 0xE2, CHR 0x86, CHR 0x92] @ '' Verified Caller IDs''))
      else error_msg)"

text \<open>
  \<open>twilio_client\<close> is \<open>None\<close> or a client, given by what its \<open>calls.create\<close> does with a
  request. The result is the returned dictionary (\<open>Inl\<close> would be an exception reaching
  the caller) and the requests sent to the provider.
\<close>

definition build_request :: "settings \<Rightarrow> string \<Rightarrow> call_request" where
  "build_request env phone_number =
     \<lparr>req_to = phone_number, req_from = TWILIO_PHONE_NUMBER env,
      say_message = getenv (CALL_MESSAGE env) ''Hello, this is a test call from the DialAI app.'',
      say_voice = getenv (CALL_VOICE env) ''alice'',
      say_language = getenv (CALL_LANGUAGE env) ''en''\<rparr>"

definition make_twilio_call ::
  "settings \<Rightarrow> (call_request \<Rightarrow> provider_outcome) option \<Rightarrow> string
     \<Rightarrow> (exception + entry) \<times> call_request list" where
  "make_twilio_call env twilio_client phone_number =
     (case twilio_client of
        None \<Rightarrow>
          (Inr [(''success'', VBool False), (''error'', VStr ''Twilio credentials not configured'')], [])
      | Some create \<Rightarrow>
          (let request = build_request env phone_number
           in case create request of
                CallCreated sid status \<Rightarrow>
                  (Inr [(''success'', VBool True), (''call_sid'', VStr sid),
                        (''status'', VStr status), (''number'', VStr phone_number)], [request])
              | CallRaises e \<Rightarrow>
                  (Inr [(''success'', VBool False),
                        (''error'', VStr (add_guidance (sanitize_exception e))),
                        (''number'', VStr phone_number)], [request])))"

section \<open>POST /call: initiate_calls\<close>

text \<open>
  The Twilio client as the handler uses it: the listing of verified caller ids
  (\<open>None\<close> where it raises) and \<open>calls.create\<close>, which may answer the \<open>i\<close>-th call of a
  request differently from the others.
\<close>

record twilio =
  outgoing_caller_ids :: "string list option"
  calls_create :: "nat \<Rightarrow> call_request \<Rightarrow> provider_outcome"

definition get_verified_numbers :: "twilio option \<Rightarrow> string list" where
  "get_verified_numbers twilio_client =
     (case twilio_client of
        None \<Rightarrow> []
      | Some client \<Rightarrow> (case outgoing_caller_ids client of Some vs \<Rightarrow> vs | None \<Rightarrow> []))"

text \<open>
  An uploaded file: its name and \<open>content.decode('utf-8')\<close>, \<open>None\<close> where the bytes
  are not UTF-8 and it raises.
\<close>

record upload =
  filename :: "string option"
  decoded :: "string option"

text \<open>The JSON body of the response.\<close>

record response =
  resp_success :: bool
  resp_error :: "string option"
  resp_total :: "nat option"
  resp_results :: "entry list"

text \<open>\<open>result.get(key, default)\<close>.\<close>

definition get_or :: "entry \<Rightarrow> string \<Rightarrow> field_value \<Rightarrow> field_value" where
  "get_or d k dflt = (case map_of d k of Some v \<Rightarrow> v | None \<Rightarrow> dflt)"

text \<open>
  The loop over \<open>phone_numbers\<close>, from the \<open>i\<close>-th call on: \<open>now i\<close> is the timestamp
  taken for the \<open>i\<close>-th entry. It returns \<open>results\<close> and the file after the appends.
\<close>

fun call_numbers ::
  "settings \<Rightarrow> twilio option \<Rightarrow> (nat \<Rightarrow> string) \<Rightarrow> nat \<Rightarrow> string list \<Rightarrow> calls_json
     \<Rightarrow> exception + entry list \<times> calls_json" where
  "call_numbers env client now i [] f = Inr ([], f)"
| "call_numbers env client now i (number # numbers) f =
     (case fst (make_twilio_call env (map_option (\<lambda>c. calls_create c i) client) number) of
        Inl e \<Rightarrow> Inl e
      | Inr result \<Rightarrow>
          (let call_log = [(''number'', VStr number),
                           (''status'', get_or result ''status'' (VStr ''failed'')),
                           (''success'', get_or result ''success'' (VBool False)),
                           (''timestamp'', VStr (now i)),
                           (''call_sid'', get_or result ''call_sid'' VNone),
                           (''error'', get_or result ''error'' VNone)]
           in case call_numbers env client now (Suc i) numbers (save_call_log call_log f) of
                Inl e \<Rightarrow> Inl e
              | Inr (results, f') \<Rightarrow> Inr (call_log # results, f')))"

text \<open>
  The text the handler parses: the upload when there is one with a name (the form field
  is then not looked at), otherwise the form field when it is not empty. \<open>Inl\<close> is the
  exception of \<open>decode\<close>; \<open>Inr None\<close> is no text at all.
\<close>

definition request_text :: "string option \<Rightarrow> upload option \<Rightarrow> exception + string option" where
  "request_text numbers file =
     (case file of
        Some u \<Rightarrow>
          (if filename u \<noteq> None \<and> filename u \<noteq> Some [] then
             (case decoded u of Some text \<Rightarrow> Inr (Some text) | None \<Rightarrow> Inl UnicodeDecodeError)
           else if numbers \<noteq> None \<and> numbers \<noteq> Some [] then Inr numbers else Inr None)
      | None \<Rightarrow> if numbers \<noteq> None \<and> numbers \<noteq> Some [] then Inr numbers else Inr None)"

definition initiate_calls ::
  "settings \<Rightarrow> twilio option \<Rightarrow> (nat \<Rightarrow> string) \<Rightarrow> string option \<Rightarrow> upload option \<Rightarrow> calls_json
     \<Rightarrow> exception + response \<times> calls_json" where
  "initiate_calls env client now numbers file f =
     (case request_text numbers file of
        Inl e \<Rightarrow> Inl e
      | Inr text \<Rightarrow>
          (let phone_numbers =
                 (case text of
                    Some t \<Rightarrow> parse_phone_numbers (get_verified_numbers client) t
                  | None \<Rightarrow> [])
           in if phone_numbers = [] then
                Inr (\<lparr>resp_success = False, resp_error = Some ''No valid phone numbers provided'',
                      resp_total = None, resp_results = []\<rparr>, f)
              else
                (case call_numbers env client now 0 phone_numbers f of
                   Inl e \<Rightarrow> Inl e
                 | Inr (results, f') \<Rightarrow>
                     Inr (\<lparr>resp_success = True, resp_error = None,
                           resp_total = Some (length phone_numbers), resp_results = results\<rparr>, f'))))"

section \<open>Concrete inputs\<close>

text \<open>
  A backend that answers every prompt with the text \<open>{"action": "dance"}\<close>, and
  \<open>json.loads\<close> at that text: it parses to the dictionary with the one key \<open>action\<close>.
\<close>

definition dance_text :: string where
  \<open>dance_text = ''{"action": "dance"}''\<close>

definition dance_backend :: "string \<Rightarrow> reply" where
  "dance_backend prompt = ReplyText dance_text"

definition dance_loads :: "string \<Rightarrow> command option" where
  "dance_loads s = (if s = dance_text then Some [(''action'', JStr ''dance'')] else None)"

text \<open>No environment variable set, a clock, and an upload whose bytes are not UTF-8.\<close>

definition unset :: settings where
  "unset = \<lparr>TWILIO_PHONE_NUMBER = None, CALL_MESSAGE = None, CALL_VOICE = None,
             CALL_LANGUAGE = None\<rparr>"

definition noon :: "nat \<Rightarrow> string" where
  "noon i = ''2024-01-01T12:00:00''"

definition binary_upload :: upload where
  "binary_upload = \<lparr>filename = Some ''numbers.bin'', decoded = None\<rparr>"

text \<open>A provider that refuses every call with a verbose Twilio error, and a log entry of it.\<close>

definition refusal :: string where
  "refusal = ''HTTP 400 error: Twilio returned the following information:''
       @ [CHR 0x0A] @ ''Unable to create record: The number +919876543210 is unverified.''
       @ [CHR 0x0A] @ ''More information may be available here:'' @ [CHR 0x0A]
       @ ''https://www.twilio.com/docs/errors/21219''"


definition failed_entry :: entry where
  "failed_entry = [(''number'', VStr ''+919876543210''), (''status'', VStr ''failed''),
     (''success'', VBool False), (''timestamp'', VStr ''2024-01-01T12:00:00''),
     (''call_sid'', VNone), (''error'', VStr refusal)]"



section \<open>Number Normalizer: the worked examples\<close>

text \<open>
  C4. With no verified number, the text \<open>"123, 4567890123\n+442071838750"\<close> gives the
  list \<open>["+14567890123", "+442071838750"]\<close>, in that order: the piece \<open>123\<close> is dropped
  because \<open>+123\<close> has fewer than ten digits, the ten digits get \<open>+1\<close>, and the piece
  that starts with \<open>+\<close> is kept as it is.
\<close>

theorem C4_scenario:
  "parse_phone_numbers [] (''123, 4567890123'' @ [CHR 0x0A] @ ''+442071838750'')
     = [''+14567890123'', ''+442071838750'']
   \<and> normalize_number (verified_digits []) ''123'' = None
   \<and> length (keep_digits (''+'' @ ''123'')) < 10
   \<and> normalize_number (verified_digits []) '' 4567890123'' = Some (''+1'' @ ''4567890123'')
   \<and> normalize_number (verified_digits []) ''+442071838750'' = Some ''+442071838750''"
  by code_simp

text \<open>
  C1, at the input \<open>"9876543210"\<close> with no verified number: ten digits that start with
  \<open>9\<close> and match nothing come out with the prefix \<open>+1\<close>, not \<open>+91\<close>. The test for ten
  characters is the first of the chain, so the later branch for a leading \<open>9\<close> is never
  taken.
\<close>

theorem C1_nine_gets_plus_1:
  "parse_phone_numbers [] ''9876543210'' = [''+19876543210'']"
  by code_simp

section \<open>Error Sanitizer: the worked example\<close>

text \<open>
  C7. The sanitizer turns the verbose Twilio text of the specification into
  \<open>"Some error"\<close>, which holds no URL and no escape character.
\<close>

theorem C7_sanitizer_example:
  "clean_error_message
     (VStr (''Twilio returned the following information:'' @ [CHR 0x0A] @ ''  Some error''
            @ [CHR 0x0A] @ ''More information may be available here: http://x''))
     = VStr ''Some error''
   \<and> \<not> contains ''Some error'' ''http''
   \<and> CHR 0x1B \<notin> set ''Some error''"
  by code_simp

section \<open>Command Interpreter: the fallback without a backend\<close>

text \<open>
  C8. With no language-model backend, \<open>"Call 9876543210 now"\<close> is \<open>call_single\<close> with the
  number \<open>9876543210\<close>, \<open>"start calling all numbers"\<close> is \<open>call_all\<close>, and \<open>"hello there"\<close>
  is \<open>unknown\<close> with an error text.
\<close>

theorem C8_fallback_examples:
  "parse_ai_command None backend loads ''Call 9876543210 now''
     = Inr [(''action'', JStr ''call_single''), (''number'', JStr ''9876543210'')]
   \<and> parse_ai_command None backend loads ''start calling all numbers''
     = Inr [(''action'', JStr ''call_all'')]
   \<and> parse_ai_command None backend loads ''hello there''
     = Inr [(''action'', JStr ''unknown''), (''error'', JStr ''Could not parse command'')]"
  by code_simp

section \<open>Call Log Store: appending and loading\<close>

text \<open>
  C5. From any state of the file, appending the records one by one with
  \<open>save_call_log\<close> and then loading gives what loading gave before, followed by the
  records in the order they were appended. A missing or unreadable file loads as the empty
  list.
\<close>

theorem C5_append_then_load:
  "load_call_logs (fold save_call_log records f) = load_call_logs f @ records"
  by (induction records arbitrary: f) (simp_all add: save_call_log_def load_call_logs_def)

section \<open>Number Normalizer: ten digits and the verified numbers\<close>

text \<open>
  The dictionary built from a list of verified numbers holds, under the last ten
  characters of a number, the number listed last among those that end in them.
\<close>

lemma verified_digits_from_append:
  "verified_digits_from d (xs @ ys) = verified_digits_from (verified_digits_from d xs) ys"
  by (induction xs arbitrary: d) (simp_all add: Let_def)

lemma verified_digits_from_unmatched:
  "\<forall>w\<in>set vs. last_10 (keep_digits_plus w) \<noteq> k \<Longrightarrow> verified_digits_from d vs k = d k"
  by (induction vs arbitrary: d) (auto simp: Let_def)

lemma verified_digits_last_match:
  assumes "10 \<le> length (keep_digits_plus v)"
    and "\<forall>w\<in>set later. last_10 (keep_digits_plus w) \<noteq> last_10 (keep_digits_plus v)"
  shows "verified_digits (earlier @ v # later) (last_10 (keep_digits_plus v))
           = Some (remove_spaces_dashes v)"
proof -
  let ?k = "last_10 (keep_digits_plus v)"
  let ?d = "(verified_digits_from Map.empty earlier)(?k \<mapsto> remove_spaces_dashes v)"
  have "verified_digits (earlier @ v # later) ?k = verified_digits_from ?d later ?k"
    using assms(1) by (simp add: verified_digits_def verified_digits_from_append Let_def)
  also have "\<dots> = ?d ?k"
    using assms(2) by (rule verified_digits_from_unmatched)
  finally show ?thesis by simp
qed

lemma length_filter_drop_le: "length (filter P (drop n xs)) \<le> length (filter P xs)"
proof -
  have "length (filter P xs) = length (filter P (take n xs)) + length (filter P (drop n xs))"
    by (metis append_take_drop_id filter_append length_append)
  then show ?thesis by simp
qed

lemma is_digit_not_space_dash: "is_digit c \<Longrightarrow> c \<noteq> CHR '' '' \<and> c \<noteq> CHR ''-''"
  by (auto simp: is_digit_def code_def)

lemma keep_digits_remove_spaces_dashes: "keep_digits (remove_spaces_dashes v) = keep_digits v"
  unfolding keep_digits_def remove_spaces_dashes_def filter_filter
  by (rule filter_cong) (auto dest: is_digit_not_space_dash)

lemma keep_digits_keep_digits_plus: "keep_digits (keep_digits_plus v) = keep_digits v"
  unfolding keep_digits_def keep_digits_plus_def filter_filter
  by (rule filter_cong) auto

lemma stored_format_ten_digits:
  assumes "last_10 (keep_digits_plus w) = cand" "length cand = 10" "\<forall>c\<in>set cand. is_digit c"
  shows "10 \<le> length (keep_digits (remove_spaces_dashes w))"
proof -
  have "keep_digits cand = cand"
    using assms(3) by (simp add: keep_digits_def)
  then have "length (keep_digits (last_10 (keep_digits_plus w))) = 10"
    using assms by simp
  moreover have "length (keep_digits (last_10 (keep_digits_plus w))) \<le> length (keep_digits (keep_digits_plus w))"
    unfolding last_10_def keep_digits_def by (rule length_filter_drop_le)
  ultimately show ?thesis
    by (simp add: keep_digits_remove_spaces_dashes keep_digits_keep_digits_plus)
qed

lemma last_10_length: "length (last_10 s) = 10 \<Longrightarrow> 10 \<le> length s"
  by (simp add: last_10_def)

text \<open>
  C2, as stated, fails when two verified numbers end in the same ten digits: the
  candidate \<open>9876543210\<close> matches the verified number \<open>+19876543210\<close>, and the output is
  the format of \<open>+919876543210\<close>, which is listed after it.
\<close>

theorem C2_counterexample:
  "''+19876543210'' \<in> set [''+19876543210'', ''+919876543210'']
   \<and> last_10 (keep_digits_plus ''+19876543210'') = ''9876543210''
   \<and> remove_spaces_dashes ''+19876543210'' = ''+19876543210''
   \<and> parse_phone_numbers [''+19876543210'', ''+919876543210''] ''9876543210''
        = [''+919876543210'']"
  by code_simp

text \<open>
  C2, amended. In any text, take a piece whose cleaned form is ten digits, and let
  \<open>v\<close> be the verified number listed last among those whose last ten characters are
  these digits. Then the piece contributes exactly the stored format of \<open>v\<close> (the
  number without spaces and dashes) to the output, between the outputs of the pieces
  before it and of the pieces after it. When one verified number matches, \<open>v\<close> is that
  number.
\<close>

theorem C2_last_verified_format:
  assumes pieces: "re_split text = before @ num # after"
    and cand: "keep_digits_plus (strip num) = cand"
    and len: "length cand = 10"
    and digs: "\<forall>c\<in>set cand. is_digit c"
    and vs: "verified_numbers = earlier @ v # later"
    and match: "last_10 (keep_digits_plus v) = cand"
    and last: "\<forall>w\<in>set later. last_10 (keep_digits_plus w) \<noteq> cand"
  shows "parse_phone_numbers verified_numbers text
           = List.map_filter (normalize_number (verified_digits verified_numbers)) before
             @ remove_spaces_dashes v
             # List.map_filter (normalize_number (verified_digits verified_numbers)) after"
proof -
  from match len have v10: "10 \<le> length (keep_digits_plus v)"
    using last_10_length by blast
  have fmt: "verified_digits verified_numbers cand = Some (remove_spaces_dashes v)"
    using verified_digits_last_match[OF v10, of later earlier] last
    unfolding vs match by simp
  have ten: "10 \<le> length (keep_digits (remove_spaces_dashes v))"
    by (rule stored_format_ten_digits[OF match len digs])
  from len obtain c cs where ccs: "cand = c # cs" by (cases cand) auto
  with digs have "is_digit c" by simp
  then have "c \<noteq> CHR ''+''" by (auto simp: is_digit_def code_def)
  with ccs have noplus: "\<not> startswith cand ''+''" by (simp add: startswith_def)
  have "normalize_number (verified_digits verified_numbers) num = Some (remove_spaces_dashes v)"
    using cand len noplus fmt ten ccs by (simp add: normalize_number_def Let_def)
  then show ?thesis
    by (simp add: parse_phone_numbers_def pieces List.map_filter_def)
qed

theorem C2_last_verified_format_witness:
  "parse_phone_numbers [''+19876543210'', ''+91 98765-43210'']
       (''123, 987-654-3210'' @ [CHR 0x0A] @ ''+442071838750'')
     = List.map_filter
         (normalize_number (verified_digits [''+19876543210'', ''+91 98765-43210''])) [''123'']
       @ remove_spaces_dashes ''+91 98765-43210''
       # List.map_filter
           (normalize_number (verified_digits [''+19876543210'', ''+91 98765-43210'']))
           [''+442071838750'']"
proof -
  have h1: "re_split (''123, 987-654-3210'' @ [CHR 0x0A] @ ''+442071838750'')
              = [''123''] @ '' 987-654-3210'' # [''+442071838750'']" by code_simp
  have h2: "keep_digits_plus (strip '' 987-654-3210'') = ''9876543210''" by code_simp
  have h3: "length ''9876543210'' = 10" by simp
  have h4: "\<forall>c\<in>set ''9876543210''. is_digit c" by code_simp
  have h5: "[''+19876543210'', ''+91 98765-43210''] = [''+19876543210''] @ ''+91 98765-43210'' # []"
    by simp
  have h6: "last_10 (keep_digits_plus ''+91 98765-43210'') = ''9876543210''" by code_simp
  have h7: "\<forall>w\<in>set []. last_10 (keep_digits_plus w) \<noteq> ''9876543210''" by simp
  show ?thesis by (rule C2_last_verified_format[OF h1 h2 h3 h4 h5 h6 h7])
qed

text \<open>The same input, evaluated: the stored format stands between the other outputs.\<close>

lemma verified_number_format_example:
  "parse_phone_numbers [''+19876543210'', ''+91 98765-43210'']
       (''123, 987-654-3210'' @ [CHR 0x0A] @ ''+442071838750'')
     = [''+919876543210'', ''+442071838750'']"
  by code_simp

text \<open>
  The general form of the evaluation for C1: a cleaned piece of ten characters that
  matches no verified number gets \<open>+1\<close>, whatever its first character; the \<open>1\<close> of the
  prefix counts as a digit in the final test.
\<close>

lemma ten_unmatched_gets_plus_1:
  assumes "keep_digits_plus (strip num) = num_clean" "length num_clean = 10"
    "\<not> startswith num_clean ''+''" "vd num_clean = None"
  shows "normalize_number vd num
           = (if 9 \<le> length (keep_digits num_clean) then Some (''+1'' @ num_clean) else None)"
proof -
  from assms(2) have "num_clean \<noteq> []" by auto
  moreover have "keep_digits (''+1'' @ num_clean) = CHR ''1'' # keep_digits num_clean"
    by (simp add: keep_digits_def is_digit_def code_def)
  ultimately show ?thesis
    using assms by (simp add: normalize_number_def Let_def)
qed

section \<open>Command Interpreter: every backend outcome\<close>

lemma is_variant_call_all_or_unknown: "is_variant (call_all_or_unknown prompt)"
  by (simp add: is_variant_def call_all_or_unknown_def)

lemma is_variant_call_single: "call_single prompt = Some d \<Longrightarrow> is_variant d"
  by (auto simp: call_single_def is_variant_def split: list.splits)

text \<open>
  C3, as stated, fails: a reply \<open>{"action": "dance"}\<close> of the backend is returned as it
  is, and it is none of the three variants.
\<close>

theorem C3_counterexample:
  "parse_ai_command (Some Gemini) dance_backend dance_loads ''please dance''
     = Inr [(''action'', JStr ''dance'')]
   \<and> \<not> is_variant [(''action'', JStr ''dance'')]"
  by code_simp

text \<open>
  C3, amended. For every provider setting, backend outcome and prompt the interpreter
  returns a dictionary and raises nothing. When a backend is configured and its reply
  holds a brace-delimited text that \<open>json.loads\<close> accepts, the result is exactly the
  parsed dictionary, whatever its keys. In every other case (no backend, the request
  raises, no brace-delimited text, or text that is not JSON) the result is one of the
  three variants.
\<close>

theorem C3_parsed_reply_or_fallback_variant:
  "(\<exists>d. parse_ai_command provider backend loads prompt = Inr d)
   \<and> (\<forall>p text json_match d.
         provider = Some p \<and> backend prompt = ReplyText text
         \<and> search_braces (strip text) = Some json_match \<and> loads json_match = Some d
         \<longrightarrow> parse_ai_command provider backend loads prompt = Inr d)
   \<and> (provider = None \<or> backend prompt = ReplyRaises
       \<or> (\<exists>text. backend prompt = ReplyText text
             \<and> (search_braces (strip text) = None
                \<or> (\<exists>json_match. search_braces (strip text) = Some json_match
                      \<and> loads json_match = None)))
       \<longrightarrow> (\<exists>d. parse_ai_command provider backend loads prompt = Inr d \<and> is_variant d))"
proof (intro conjI allI impI)
  show "\<exists>d. parse_ai_command provider backend loads prompt = Inr d"
    by (auto simp: parse_ai_command_def split: option.splits sum.splits)
next
  fix p reply_text json_match d
  assume "provider = Some p \<and> backend prompt = ReplyText reply_text
         \<and> search_braces (strip reply_text) = Some json_match \<and> loads json_match = Some d"
  then show "parse_ai_command provider backend loads prompt = Inr d"
    by (simp add: parse_ai_command_def ask_backend_def)
next
  assume "provider = None \<or> backend prompt = ReplyRaises
       \<or> (\<exists>text. backend prompt = ReplyText text
             \<and> (search_braces (strip text) = None
                \<or> (\<exists>json_match. search_braces (strip text) = Some json_match
                      \<and> loads json_match = None)))"
  then show "\<exists>d. parse_ai_command provider backend loads prompt = Inr d \<and> is_variant d"
    by (cases provider)
       (auto simp: parse_ai_command_def ask_backend_def is_variant_call_all_or_unknown
             dest: is_variant_call_single split: option.splits if_splits)
qed

theorem C3_parsed_reply_or_fallback_variant_witness:
  "parse_ai_command (Some OpenAI) dance_backend dance_loads ''call me''
     = Inr [(''action'', JStr ''dance'')]"
proof -
  have h: "Some OpenAI = Some OpenAI \<and> dance_backend ''call me'' = ReplyText dance_text
         \<and> search_braces (strip dance_text) = Some dance_text
         \<and> dance_loads dance_text = Some [(''action'', JStr ''dance'')]"
    by code_simp
  show ?thesis
    by (rule C3_parsed_reply_or_fallback_variant
          [of "Some OpenAI" dance_backend dance_loads "''call me''",
           THEN conjunct2, THEN conjunct1, rule_format, OF h])
qed

section \<open>Call Dispatcher: failures\<close>




text \<open>Otherwise the dispatcher only strips the ANSI codes.\<close>

lemma sanitize_exception_http_error:
  assumes "\<not> contains (strip_ansi_codes e) twilio_preamble"
  shows "sanitize_exception e = strip_ansi_codes e"
  using assms by (simp add: sanitize_exception_def Let_def)




text \<open>
  The same call, evaluated: the ANSI-free core of the Twilio error, then the guidance
  that names the number.
\<close>

lemma refused_call_example:
  "py_str (clean_error_message (VStr refusal))
     = ''Unable to create record: The number +919876543210 is unverified.''
   \<and> startswith (add_guidance ''Unable to create record: The number +919876543210 is unverified.'')
        ''Unable to create record: The number +919876543210 is unverified. | Action Required: Verify the DESTINATION number +919876543210''"
  by code_simp

section \<open>Cleanup of the stored log\<close>

lemma cleanup_log_keys: "map fst (cleanup_log log) = map fst log"
proof (cases "map_of log ''error''")
  case None
  then show ?thesis by (simp add: cleanup_log_def)
next
  case (Some e)
  from map_of_SomeD[OF Some] have "''error'' \<in> fst ` set log" by force
  with Some show ?thesis by (simp add: cleanup_log_def update_keys)
qed

lemma cleanup_log_other: "k \<noteq> ''error'' \<Longrightarrow> map_of (cleanup_log log) k = map_of log k"
  by (simp add: cleanup_log_def update_conv' split: option.splits)

lemma cleanup_log_error:
  "map_of (cleanup_log log) ''error''
     = (case map_of log ''error'' of
          Some e \<Rightarrow> Some (if truthy e then clean_error_message e else e)
        | None \<Rightarrow> None)"
  by (simp add: cleanup_log_def update_conv' split: option.splits)

text \<open>
  C9. The cleanup returns the number of entries, keeps their number and order, keeps
  the keys of every entry in order and the value of every key other than \<open>error\<close>, and
  replaces a non-empty \<open>error\<close> by the Error Sanitizer's output for it.
\<close>

theorem C9_cleanup_frame:
  assumes "cleanup_all_logs f = (n, f')"
  shows "n = length (load_call_logs f)
    \<and> length (load_call_logs f') = length (load_call_logs f)
    \<and> (\<forall>i < length (load_call_logs f).
          map fst (load_call_logs f' ! i) = map fst (load_call_logs f ! i)
        \<and> (\<forall>k. k \<noteq> ''error'' \<longrightarrow> map_of (load_call_logs f' ! i) k = map_of (load_call_logs f ! i) k)
        \<and> map_of (load_call_logs f' ! i) ''error''
            = (case map_of (load_call_logs f ! i) ''error'' of
                 Some e \<Rightarrow> Some (if truthy e then clean_error_message e else e)
               | None \<Rightarrow> None))"
proof -
  from assms have n: "n = length (load_call_logs f)"
    and f': "load_call_logs f' = map cleanup_log (load_call_logs f)"
    by (auto simp: cleanup_all_logs_def Let_def load_call_logs_def)
  show ?thesis
    unfolding f' using n
    by (simp add: cleanup_log_keys cleanup_log_other cleanup_log_error)
qed

theorem C9_cleanup_frame_witness:
  "cleanup_all_logs (Stored [failed_entry])
     = (1, Stored [AList.update ''error''
                     (VStr ''Unable to create record: The number +919876543210 is unverified.'')
                     failed_entry])
   \<and> 1 = length (load_call_logs (Stored [failed_entry]))"
proof -
  have h: "cleanup_all_logs (Stored [failed_entry])
     = (1, Stored [AList.update ''error''
                     (VStr ''Unable to create record: The number +919876543210 is unverified.'')
                     failed_entry])"
    by code_simp
  show ?thesis using h C9_cleanup_frame[OF h, THEN conjunct1] by (rule conjI)
qed

section \<open>POST /call: the top-level success flag\<close>

text \<open>
  The loop over the numbers never raises: it returns one entry per number, in order,
  and the file then holds the old entries followed by them.
\<close>

lemma make_twilio_call_returns: "\<exists>d. fst (make_twilio_call env c phone_number) = Inr d"
  by (cases c) (auto simp: make_twilio_call_def Let_def split: provider_outcome.splits)

lemma call_numbers_returns:
  "\<exists>results f'. call_numbers env client now i numbers f = Inr (results, f')
      \<and> length results = length numbers
      \<and> load_call_logs f' = load_call_logs f @ results
      \<and> map (\<lambda>r. map_of r ''number'') results = map (\<lambda>n. Some (VStr n)) numbers"
proof (induction numbers arbitrary: i f)
  case Nil
  show ?case by simp
next
  case (Cons number numbers)
  obtain d where d: "fst (make_twilio_call env (map_option (\<lambda>c. calls_create c i) client) number) = Inr d"
    using make_twilio_call_returns by blast
  define call_log where "call_log = [(''number'', VStr number),
                           (''status'', get_or d ''status'' (VStr ''failed'')),
                           (''success'', get_or d ''success'' (VBool False)),
                           (''timestamp'', VStr (now i)),
                           (''call_sid'', get_or d ''call_sid'' VNone),
                           (''error'', get_or d ''error'' VNone)]"
  from Cons.IH[of "Suc i" "save_call_log call_log f"]
  obtain results f' where r: "call_numbers env client now (Suc i) numbers (save_call_log call_log f) = Inr (results, f')"
    "length results = length numbers"
    "load_call_logs f' = load_call_logs (save_call_log call_log f) @ results"
    "map (\<lambda>r. map_of r ''number'') results = map (\<lambda>n. Some (VStr n)) numbers"
    by blast
  have "call_numbers env client now i (number # numbers) f = Inr (call_log # results, f')"
    using d r(1) by (simp add: Let_def call_log_def)
  moreover have "load_call_logs f' = load_call_logs f @ call_log # results"
    using r(3) by (simp add: save_call_log_def load_call_logs_def)
  moreover have "map_of call_log ''number'' = Some (VStr number)"
    by (simp add: call_log_def)
  ultimately show ?case using r(2,4) by simp
qed

text \<open>
  C10, as stated, fails for an upload with a name whose bytes are not UTF-8: no number
  is obtained, and the handler returns no body at all, because \<open>decode\<close> raises.
\<close>

theorem C10_counterexample:
  "request_text None (Some binary_upload) = Inl UnicodeDecodeError
   \<and> initiate_calls unset None noon None (Some binary_upload) Missing = Inl UnicodeDecodeError"
  by code_simp

text \<open>
  C10, amended. When the text of the request is read without an exception (the named
  upload decodes, or there is no named upload and the form field is used), the handler
  returns a body; its \<open>success\<close> is true exactly when the parse of that text gave at least
  one number, whatever the client and the outcome of the calls. With no number the body
  has the error text and the log is untouched; otherwise it has the total and one result
  per number, and the log has grown by these results.
\<close>

theorem C10_success_iff_numbers_parsed:
  assumes "request_text numbers file = Inr text"
    and "phone_numbers = (case text of
                            Some t \<Rightarrow> parse_phone_numbers (get_verified_numbers client) t
                          | None \<Rightarrow> [])"
  shows "\<exists>resp f'. initiate_calls env client now numbers file f = Inr (resp, f')
      \<and> resp_success resp = (phone_numbers \<noteq> [])
      \<and> (if phone_numbers = []
         then resp_error resp = Some ''No valid phone numbers provided'' \<and> f' = f
         else resp_error resp = None \<and> resp_total resp = Some (length phone_numbers)
              \<and> length (resp_results resp) = length phone_numbers
              \<and> load_call_logs f' = load_call_logs f @ resp_results resp)"
proof (cases "phone_numbers = []")
  case True
  with assms show ?thesis by (simp add: initiate_calls_def)
next
  case False
  obtain results f' where r: "call_numbers env client now 0 phone_numbers f = Inr (results, f')"
    "length results = length phone_numbers"
    "load_call_logs f' = load_call_logs f @ results"
    using call_numbers_returns by blast
  with False assms show ?thesis by (simp add: initiate_calls_def)
qed

theorem C10_success_iff_numbers_parsed_witness:
  "request_text (Some ''4567890123'') None = Inr (Some ''4567890123'')
   \<and> (\<exists>resp f'. initiate_calls unset None noon (Some ''4567890123'') None Missing = Inr (resp, f')
      \<and> resp_success resp = ([''+14567890123''] \<noteq> [])
      \<and> (if [''+14567890123''] = []
         then resp_error resp = Some ''No valid phone numbers provided'' \<and> f' = Missing
         else resp_error resp = None \<and> resp_total resp = Some (length [''+14567890123''])
              \<and> length (resp_results resp) = length [''+14567890123'']
              \<and> load_call_logs f' = load_call_logs Missing @ resp_results resp))"
proof -
  have h1: "request_text (Some ''4567890123'') None = Inr (Some ''4567890123'')" by code_simp
  have h2: "[''+14567890123''] = (case Some ''4567890123'' of
                            Some t \<Rightarrow> parse_phone_numbers (get_verified_numbers None) t
                          | None \<Rightarrow> [])" by code_simp
  show ?thesis
    using h1 C10_success_iff_numbers_parsed[OF h1 h2, of unset noon Missing] by (rule conjI)
qed

text \<open>
  Two evaluations. Without Twilio credentials the one call fails and the body still
  says \<open>success\<close>. A named upload without numbers gives the error although the form
  field holds a valid number: the form field is not read then.
\<close>

lemma every_call_failed_yet_success:
  "initiate_calls unset None noon (Some ''4567890123'') None Missing
     = Inr (\<lparr>resp_success = True, resp_error = None, resp_total = Some 1,
         resp_results =
           [[(''number'', VStr ''+14567890123''),
             (''status'', VStr ''failed''), (''success'', VBool False),
             (''timestamp'', VStr ''2024-01-01T12:00:00''), (''call_sid'', VNone),
             (''error'', VStr ''Twilio credentials not configured'')]]\<rparr>,
      Stored
       [[(''number'', VStr ''+14567890123''), (''status'', VStr ''failed''),
         (''success'', VBool False), (''timestamp'', VStr ''2024-01-01T12:00:00''),
         (''call_sid'', VNone),
         (''error'', VStr ''Twilio credentials not configured'')]])"
  by code_simp

lemma form_ignored_when_file_named:
  "initiate_calls unset None noon (Some ''4567890123'')
     (Some \<lparr>filename = Some ''empty.txt'', decoded = Some []\<rparr>) Missing
   = Inr (\<lparr>resp_success = False, resp_error = Some ''No valid phone numbers provided'',
            resp_total = None, resp_results = []\<rparr>, Missing)"
  by code_simp

end
